theory Spec2Isabelle
  imports Complex_Main "HOL-Library.Monad_Syntax" "HOL-Library.Word"
begin

section \<open>The shading language's values and built-in functions\<close>

text \<open>
  The fragment shader that \<open>generateComponentCode\<close> emits computes on \<open>float\<close>,
  \<open>vec2\<close> and \<open>vec3\<close>. A \<open>float\<close> is modelled as a real number (rounding is left
  out), a vector as a tuple. Where the shading language leaves the result of an operation
  unspecified (a division by zero, \<open>normalize\<close> of the zero vector, \<open>atan(0, 0)\<close>,
  \<open>pow\<close> of a negative base, \<open>clamp\<close> with crossed bounds) the model returns \<open>None\<close>
  instead of HOL's arbitrary total value, and \<open>None\<close> flows into everything computed from it,
  as a NaN does.
\<close>

type_synonym vec2 = "real \<times> real"
type_synonym vec3 = "real \<times> real \<times> real"
type_synonym vec4 = "real \<times> real \<times> real \<times> real"

text \<open>A bound \<open>sampler2D\<close>: \<open>texture2D(u_texture, uv).rgb\<close> for every coordinate.\<close>
type_synonym sampler2D = "vec2 \<Rightarrow> vec3"

definition PI :: real where
  "PI = 3.141592653589793"

definition fdiv :: "real \<Rightarrow> real \<Rightarrow> real option" where
  "fdiv a b = (if b = 0 then None else Some (a / b))"

definition add2 :: "vec2 \<Rightarrow> vec2 \<Rightarrow> vec2" where
  "add2 a b = (fst a + fst b, snd a + snd b)"

definition sub2 :: "vec2 \<Rightarrow> vec2 \<Rightarrow> vec2" where
  "sub2 a b = (fst a - fst b, snd a - snd b)"

definition mul2 :: "vec2 \<Rightarrow> vec2 \<Rightarrow> vec2" where
  "mul2 a b = (fst a * fst b, snd a * snd b)"

definition scale2 :: "vec2 \<Rightarrow> real \<Rightarrow> vec2" where
  "scale2 a s = (fst a * s, snd a * s)"

definition div2 :: "vec2 \<Rightarrow> vec2 \<Rightarrow> vec2 option" where
  "div2 a b = do { x \<leftarrow> fdiv (fst a) (fst b); y \<leftarrow> fdiv (snd a) (snd b); Some (x, y) }"

definition abs2 :: "vec2 \<Rightarrow> vec2" where
  "abs2 a = (\<bar>fst a\<bar>, \<bar>snd a\<bar>)"

definition max2 :: "vec2 \<Rightarrow> real \<Rightarrow> vec2" where
  "max2 a s = (max (fst a) s, max (snd a) s)"

definition dot2 :: "vec2 \<Rightarrow> vec2 \<Rightarrow> real" where
  "dot2 a b = fst a * fst b + snd a * snd b"

definition length2 :: "vec2 \<Rightarrow> real" where
  "length2 a = sqrt (fst a * fst a + snd a * snd a)"

definition normalize2 :: "vec2 \<Rightarrow> vec2 option" where
  "normalize2 a = do { x \<leftarrow> fdiv (fst a) (length2 a); y \<leftarrow> fdiv (snd a) (length2 a); Some (x, y) }"

definition add3 :: "vec3 \<Rightarrow> vec3 \<Rightarrow> vec3" where
  "add3 a b = (case a of (ar, ag, ab) \<Rightarrow> case b of (br, bg, bb) \<Rightarrow> (ar + br, ag + bg, ab + bb))"

definition mul3 :: "vec3 \<Rightarrow> vec3 \<Rightarrow> vec3" where
  "mul3 a b = (case a of (ar, ag, ab) \<Rightarrow> case b of (br, bg, bb) \<Rightarrow> (ar * br, ag * bg, ab * bb))"

definition scale3 :: "vec3 \<Rightarrow> real \<Rightarrow> vec3" where
  "scale3 a s = (case a of (ar, ag, ab) \<Rightarrow> (ar * s, ag * s, ab * s))"

definition div3 :: "vec3 \<Rightarrow> real \<Rightarrow> vec3 option" where
  "div3 a s = (case a of (ar, ag, ab) \<Rightarrow>
     do { r \<leftarrow> fdiv ar s; g \<leftarrow> fdiv ag s; b \<leftarrow> fdiv ab s; Some (r, g, b) })"

definition dot3 :: "vec3 \<Rightarrow> vec3 \<Rightarrow> real" where
  "dot3 a b = (case a of (ar, ag, ab) \<Rightarrow> case b of (br, bg, bb) \<Rightarrow> ar * br + ag * bg + ab * bb)"

definition splat3 :: "real \<Rightarrow> vec3" where
  "splat3 s = (s, s, s)"

text \<open>\<open>mix(x, y, a) = x * (1 - a) + y * a\<close>, on floats and componentwise on vectors.\<close>

definition mix :: "real \<Rightarrow> real \<Rightarrow> real \<Rightarrow> real" where
  "mix x y a = x * (1 - a) + y * a"

definition mix3 :: "vec3 \<Rightarrow> vec3 \<Rightarrow> real \<Rightarrow> vec3" where
  "mix3 a b t = (case a of (ar, ag, ab) \<Rightarrow> case b of (br, bg, bb) \<Rightarrow>
     (mix ar br t, mix ag bg t, mix ab bb t))"

text \<open>\<open>clamp(x, lo, hi) = min(max(x, lo), hi)\<close>, unspecified when \<open>lo > hi\<close>.\<close>

definition clamp :: "real \<Rightarrow> real \<Rightarrow> real \<Rightarrow> real option" where
  "clamp x lo hi = (if lo > hi then None else Some (min (max x lo) hi))"

text \<open>\<open>pow(x, 12.0)\<close>: unspecified for a negative base.\<close>

definition pow12 :: "real \<Rightarrow> real option" where
  "pow12 x = (if x < 0 then None else Some (x ^ 12))"

text \<open>\<open>atan(y, x)\<close>: the angle of the point \<open>(x, y)\<close>, unspecified at the origin.\<close>

definition atan :: "real \<Rightarrow> real \<Rightarrow> real option" where
  "atan y x =
     (if x > 0 then Some (arctan (y / x))
      else if x < 0 then (if y \<ge> 0 then Some (arctan (y / x) + pi) else Some (arctan (y / x) - pi))
      else if y > 0 then Some (pi / 2)
      else if y < 0 then Some (- (pi / 2))
      else None)"

text \<open>\<open>int(f)\<close> drops the fractional part; \<open>float(i)\<close> is \<open>of_int\<close>.\<close>

definition to_int :: "real \<Rightarrow> int" where
  "to_int f = (if f \<ge> 0 then \<lfloor>f\<rfloor> else \<lceil>f\<rceil>)"

section \<open>The uniforms\<close>

record uniforms =
  u_time :: real
  u_resolution :: vec2
  u_mouse :: vec2
  u_width :: real
  u_height :: real
  u_tint :: vec3
  u_saturation :: real
  u_distortion :: real
  u_blur :: real
  u_cornerRadius :: real
  u_chromaticAberration :: real
  u_shape :: real
  u_donutThickness :: real
  u_starPoints :: real
  u_starInnerRadius :: real
  u_shadowIntensity :: real
  u_shadowOffset :: vec2
  u_shadowBlur :: real
  u_glassMode :: real

section \<open>Shape distance functions\<close>

definition sdRoundedRect :: "vec2 \<Rightarrow> vec2 \<Rightarrow> real \<Rightarrow> real" where
  "sdRoundedRect pos halfSize radius =
     (let q = add2 (sub2 (abs2 pos) halfSize) (radius, radius)
      in min (max (fst q) (snd q)) 0 + length2 (max2 q 0) - radius)"

definition sdCircle :: "vec2 \<Rightarrow> real \<Rightarrow> real" where
  "sdCircle pos radius = length2 pos - radius"

definition sdStar :: "vec2 \<Rightarrow> real \<Rightarrow> real \<Rightarrow> int \<Rightarrow> real option" where
  "sdStar pos outerRadius innerRadius points =
     do {
       angle \<leftarrow> atan (snd pos) (fst pos);
       let radius = length2 pos;
       segmentAngle \<leftarrow> fdiv (2 * PI) (of_int points);
       q \<leftarrow> fdiv angle segmentAngle;
       let segment = of_int \<lfloor>q + 0.5\<rfloor>;
       let segmentStart = segment * segmentAngle;
       let localAngle = angle - segmentStart;
       let halfSegment = segmentAngle * 0.5;
       t \<leftarrow> fdiv \<bar>localAngle\<bar> halfSegment;
       let targetRadius = mix outerRadius innerRadius t;
       Some (radius - targetRadius)
     }"

definition sdHexagon :: "vec2 \<Rightarrow> real \<Rightarrow> real option" where
  "sdHexagon pos sz =
     (let kx = - 0.866025404; ky = 0.5; kz = 0.577350269;
          p1 = abs2 pos;
          p2 = sub2 p1 (scale2 (kx, ky) (2 * min (dot2 (kx, ky) p1) 0))
      in do {
           c \<leftarrow> clamp (fst p2) (- kz * sz) (kz * sz);
           let p3 = sub2 p2 (c, sz);
           Some (length2 p3 * sgn (snd p3))
         })"

definition sdDonut :: "vec2 \<Rightarrow> real \<Rightarrow> real \<Rightarrow> real" where
  "sdDonut pos outerRadius thickness =
     (let innerRadius = outerRadius * (1 - thickness);
          d = length2 pos
      in max (d - outerRadius) (innerRadius - d))"

definition getShapeSDF :: "uniforms \<Rightarrow> vec2 \<Rightarrow> real option" where
  "getShapeSDF u pos =
     (if u_shape u < 0.5 then
        Some (sdRoundedRect pos (u_width u, u_height u) (u_cornerRadius u))
      else if u_shape u < 1.5 then
        Some (sdCircle pos (min (u_width u) (u_height u)))
      else if u_shape u < 2.5 then
        (let outerRadius = min (u_width u) (u_height u) * 0.8;
             innerRadius = outerRadius * u_starInnerRadius u
         in sdStar pos outerRadius innerRadius (to_int (u_starPoints u)))
      else if u_shape u < 3.5 then
        sdHexagon pos (min (u_width u) (u_height u) * 0.8)
      else
        Some (sdDonut pos (min (u_width u) (u_height u) * 0.8) (u_donutThickness u)))"

section \<open>Colour adjustment and blur\<close>

definition saturate :: "vec3 \<Rightarrow> real \<Rightarrow> vec3" where
  "saturate color factor =
     (let gray = dot3 color (0.299, 0.587, 0.114)
      in mix3 (splat3 gray) color factor)"

text \<open>
  One pass of the body of the two nested loops of \<open>sampleBlurred\<close>, at the loop
  variables \<open>x\<close> and \<open>y\<close>; the accumulators \<open>color\<close> and \<open>total\<close> go in and come out.
\<close>

definition blurTap ::
  "uniforms \<Rightarrow> sampler2D \<Rightarrow> vec2 \<Rightarrow> real \<Rightarrow> real \<Rightarrow> real \<Rightarrow> vec3 \<times> real \<Rightarrow> (vec3 \<times> real) option" where
  "blurTap u tex uv blurAmount x y acc =
     do {
       offset \<leftarrow> div2 (scale2 (x, y) blurAmount) (u_resolution u);
       e \<leftarrow> fdiv (- (x * x + y * y)) (2 * blurAmount * blurAmount);
       let weight = exp e;
       Some (add3 (fst acc) (scale3 (tex (add2 uv offset)) weight), snd acc + weight)
     }"

text \<open>
  The inner loop \<open>for (float y = -2.0; y <= 2.0; y += 1.0)\<close> from the value \<open>y\<close> of its
  variable on, and the outer loop over \<open>x\<close> likewise.
\<close>

function blurLoopY ::
  "uniforms \<Rightarrow> sampler2D \<Rightarrow> vec2 \<Rightarrow> real \<Rightarrow> real \<Rightarrow> real \<Rightarrow> vec3 \<times> real \<Rightarrow> (vec3 \<times> real) option" where
  "blurLoopY u tex uv blurAmount x y acc =
     (if y \<le> 2 then
        (case blurTap u tex uv blurAmount x y acc of
           None \<Rightarrow> None
         | Some acc' \<Rightarrow> blurLoopY u tex uv blurAmount x (y + 1) acc')
      else Some acc)"
  by pat_completeness auto
termination
  by (relation "measure (\<lambda>(u, tex, uv, blurAmount, x, y, acc). nat \<lceil>3 - y\<rceil>)") (auto, linarith)

function blurLoopX ::
  "uniforms \<Rightarrow> sampler2D \<Rightarrow> vec2 \<Rightarrow> real \<Rightarrow> real \<Rightarrow> vec3 \<times> real \<Rightarrow> (vec3 \<times> real) option" where
  "blurLoopX u tex uv blurAmount x acc =
     (if x \<le> 2 then
        (case blurLoopY u tex uv blurAmount x (- 2) acc of
           None \<Rightarrow> None
         | Some acc' \<Rightarrow> blurLoopX u tex uv blurAmount (x + 1) acc')
      else Some acc)"
  by pat_completeness auto
termination
  by (relation "measure (\<lambda>(u, tex, uv, blurAmount, x, acc). nat \<lceil>3 - x\<rceil>)") (auto, linarith)

declare blurLoopY.simps [simp del] blurLoopX.simps [simp del]

definition sampleBlurred :: "uniforms \<Rightarrow> sampler2D \<Rightarrow> vec2 \<Rightarrow> real \<Rightarrow> vec3 option" where
  "sampleBlurred u tex uv blurAmount =
     (case blurLoopX u tex uv blurAmount (- 2) ((0, 0, 0), 0) of
        None \<Rightarrow> None
      | Some (color, total') \<Rightarrow> div3 color total')"

section \<open>The fragment shader's \<open>main\<close>\<close>

text \<open>
  The distortion block: the sampling coordinate \<open>distortedUV\<close> that it leaves behind.
  \<open>normalizedInside\<close> is passed as computed by \<open>main\<close>, unspecified when \<open>u_height\<close> is 0.
\<close>

definition distortedUV :: "uniforms \<Rightarrow> vec2 \<Rightarrow> real option \<Rightarrow> vec2 \<Rightarrow> vec2 option" where
  "distortedUV u centeredUV normalizedInside v_texCoord =
     (if u_distortion u > 0 then
        do {
          xp \<leftarrow> getShapeSDF u (add2 centeredUV (2, 0));
          xm \<leftarrow> getShapeSDF u (sub2 centeredUV (2, 0));
          yp \<leftarrow> getShapeSDF u (add2 centeredUV (0, 2));
          ym \<leftarrow> getShapeSDF u (sub2 centeredUV (0, 2));
          grad \<leftarrow> normalize2 (xp - xm, yp - ym);
          n \<leftarrow> normalizedInside;
          p \<leftarrow> pow12 \<bar>n\<bar>;
          let offsetAmount = p * (- 0.05) * u_distortion u;
          Some (add2 v_texCoord (scale2 grad offsetAmount))
        }
      else Some v_texCoord)"

text \<open>The chromatic aberration block: the \<open>glassColor\<close> that it leaves behind.\<close>

definition chromatic :: "uniforms \<Rightarrow> sampler2D \<Rightarrow> vec2 \<Rightarrow> vec3 \<Rightarrow> vec3 option" where
  "chromatic u tex duv glassColor =
     (if u_chromaticAberration u > 0 then
        do {
          let center = (0.5, 0.5);
          direction \<leftarrow> normalize2 (sub2 duv center);
          let dist = length2 (sub2 duv center);
          let aberration = u_chromaticAberration u * dist * 0.01;
          rs \<leftarrow> sampleBlurred u tex (add2 duv (scale2 (scale2 direction aberration) 1.2)) (u_blur u * 3);
          bs \<leftarrow> sampleBlurred u tex (sub2 duv (scale2 (scale2 direction aberration) 0.8)) (u_blur u * 3);
          Some (fst rs, fst (snd glassColor), snd (snd bs))
        }
      else Some glassColor)"

text \<open>The shadow block: the \<open>bgColor\<close> that it leaves behind.\<close>

definition shadowed :: "uniforms \<Rightarrow> vec2 \<Rightarrow> vec3 \<Rightarrow> vec3 option" where
  "shadowed u centeredUV bgColor =
     (if u_shadowIntensity u > 0 then
        do {
          let shadowPos = sub2 centeredUV (u_shadowOffset u);
          shadowSdf \<leftarrow> getShapeSDF u shadowPos;
          q \<leftarrow> fdiv shadowSdf (u_shadowBlur u);
          c \<leftarrow> clamp q 0 1;
          let shadowMask = (1 - c) * u_shadowIntensity u;
          Some (mix3 bgColor (scale3 bgColor (1 - shadowMask)) shadowMask)
        }
      else Some bgColor)"

definition main :: "uniforms \<Rightarrow> sampler2D \<Rightarrow> vec2 \<Rightarrow> vec4 option" where
  "main u tex v_texCoord =
     (let fragCoord = mul2 v_texCoord (u_resolution u);
          centeredUV = sub2 fragCoord (u_mouse u)
      in do {
           sdf \<leftarrow> getShapeSDF u centeredUV;
           let bgColor = tex v_texCoord;
           let normalizedInside = map_option (\<lambda>q. q + 1) (fdiv sdf (u_height u));
           c \<leftarrow> clamp sdf 0 1;
           let boxMask = 1 - c;
           if boxMask > 0 then
             do {
               duv \<leftarrow> distortedUV u centeredUV normalizedInside v_texCoord;
               blurred \<leftarrow> sampleBlurred u tex duv (u_blur u * 3);
               fringed \<leftarrow> chromatic u tex duv blurred;
               let glassColor = mul3 (saturate fringed (u_saturation u)) (u_tint u);
               n \<leftarrow> normalizedInside;
               edgeBlendFactor \<leftarrow> pow12 n;
               e \<leftarrow> clamp edgeBlendFactor 0 1;
               let highlightAmount = mix 0 0.3 e;
               let glassColor = add3 glassColor (splat3 highlightAmount);
               bgColor \<leftarrow> shadowed u centeredUV bgColor;
               case mix3 bgColor glassColor boxMask of (r, g, b) \<Rightarrow> Some (r, g, b, 1)
             }
           else
             case bgColor of (r, g, b) \<Rightarrow> Some (r, g, b, 1)
         })"

section \<open>The saved designs and their export\<close>

text \<open>
  A string of the script is the list of its UTF-16 code units. \<open>ascii\<close> takes a text
  of ASCII characters to the string of the same characters.
\<close>

type_synonym jsstring = "16 word list"

definition ascii :: "string \<Rightarrow> jsstring" where
  "ascii s = map (\<lambda>c. of_nat (of_char c)) s"

datatype shape = rectangle | circle | star | hexagon | donut

datatype glassMode = light | dark

text \<open>A number of the script is modelled as a real (no rounding, no NaN, no infinities).\<close>

record ShaderParams =
  width :: real
  height :: real
  mouseX :: real
  mouseY :: real
  tintR :: real
  tintG :: real
  tintB :: real
  saturation :: real
  distortion :: real
  blur :: real
  text' :: jsstring
  iconSize :: real
  iconColorR :: real
  iconColorG :: real
  iconColorB :: real
  glassMode :: glassMode
  shadowIntensity :: real
  shadowOffsetX :: real
  shadowOffsetY :: real
  shadowBlur :: real
  cornerRadius :: real
  chromaticAberration :: real
  shape :: shape
  donutThickness :: real
  starPoints :: real
  starInnerRadius :: real

text \<open>
  The interface \<open>SavedDesign\<close> is erased when the script runs, and the list read from
  \<open>localStorage\<close> is not checked against it, so an object of the list may lack any of the
  fields: a field that is absent reads as \<open>undefined\<close>, here \<open>None\<close>.
\<close>

record SavedDesign =
  id' :: "jsstring option"
  name :: "jsstring option"
  params :: "ShaderParams option"
  backgroundUrl :: "jsstring option"
  createdAt :: "nat option"
  updatedAt :: "nat option"

definition well_formed :: "SavedDesign \<Rightarrow> bool" where
  "well_formed d \<longleftrightarrow>
     id' d \<noteq> None \<and> name d \<noteq> None \<and> params d \<noteq> None \<and> backgroundUrl d \<noteq> None
     \<and> createdAt d \<noteq> None \<and> updatedAt d \<noteq> None"

text \<open>
  The text stored under \<open>STORAGE_KEY\<close>, as far as \<open>if (saved)\<close> and \<open>JSON.parse\<close> tell
  texts apart: the empty text, a text that \<open>JSON.parse\<close> rejects, and a text that encodes
  a list of objects. \<open>JSON.stringify\<close> writes the last kind.
\<close>

datatype stored_text = Empty | Garbled | Doc "SavedDesign list"

datatype toast =
  EnterName
  | SavedSuccessfully jsstring
  | Deleted "jsstring option"
  | Loaded "jsstring option"

subsection \<open>The exported component\<close>

datatype literal = Number real | Quoted string

fun indexOf :: "'a list \<Rightarrow> 'a \<Rightarrow> int" where
  "indexOf [] x = - 1"
| "indexOf (y # ys) x =
     (if y = x then 0 else (let i = indexOf ys x in if i < 0 then - 1 else i + 1))"

definition shapeValue :: "ShaderParams \<Rightarrow> int" where
  "shapeValue p = indexOf [rectangle, circle, star, hexagon, donut] (shape p)"

fun shape_name :: "shape \<Rightarrow> string" where
  "shape_name rectangle = ''rectangle''"
| "shape_name circle = ''circle''"
| "shape_name star = ''star''"
| "shape_name hexagon = ''hexagon''"
| "shape_name donut = ''donut''"

fun glassMode_name :: "glassMode \<Rightarrow> string" where
  "glassMode_name light = ''light''"
| "glassMode_name dark = ''dark''"

text \<open>
  The fields of the object literal \<open>const params = { ... }\<close> of the generated component,
  in the order of the template, each with the value substituted for its \<open>${...}\<close>: a
  number, or a name between quotes.
\<close>

definition params_literal :: "ShaderParams \<Rightarrow> (string \<times> literal) list" where
  "params_literal p =
     [(''width'', Number (width p)),
      (''height'', Number (height p)),
      (''mouseX'', Number (mouseX p)),
      (''mouseY'', Number (mouseY p)),
      (''tintR'', Number (tintR p)),
      (''tintG'', Number (tintG p)),
      (''tintB'', Number (tintB p)),
      (''saturation'', Number (saturation p)),
      (''distortion'', Number (distortion p)),
      (''blur'', Number (blur p)),
      (''iconColorR'', Number (iconColorR p)),
      (''iconColorG'', Number (iconColorG p)),
      (''iconColorB'', Number (iconColorB p)),
      (''glassMode'', Quoted (glassMode_name (glassMode p))),
      (''shadowIntensity'', Number (shadowIntensity p)),
      (''shadowOffsetX'', Number (shadowOffsetX p)),
      (''shadowOffsetY'', Number (shadowOffsetY p)),
      (''shadowBlur'', Number (shadowBlur p)),
      (''cornerRadius'', Number (cornerRadius p)),
      (''chromaticAberration'', Number (chromaticAberration p)),
      (''shape'', Number (of_int (shapeValue p))),
      (''donutThickness'', Number (donutThickness p)),
      (''starPoints'', Number (starPoints p)),
      (''starInnerRadius'', Number (starInnerRadius p))]"

text \<open>
  The text of these fields as the template lays it out: four spaces, the name, a colon and
  a space, the value; a comma and a line break between two fields. The text that the
  language gives for a number is not modelled: \<open>numberToString\<close> stands for it.
\<close>

fun literal_text :: "(real \<Rightarrow> jsstring) \<Rightarrow> literal \<Rightarrow> jsstring" where
  "literal_text numberToString (Number x) = numberToString x"
| "literal_text numberToString (Quoted s) = [0x27] @ ascii s @ [0x27]"

definition field_text :: "(real \<Rightarrow> jsstring) \<Rightarrow> string \<times> literal \<Rightarrow> jsstring" where
  "field_text numberToString kv =
     ascii ''    '' @ ascii (fst kv) @ ascii '': '' @ literal_text numberToString (snd kv)"

fun object_text :: "(real \<Rightarrow> jsstring) \<Rightarrow> (string \<times> literal) list \<Rightarrow> jsstring" where
  "object_text numberToString [] = []"
| "object_text numberToString [kv] = field_text numberToString kv"
| "object_text numberToString (kv # kvs) =
     field_text numberToString kv @ [0x2C, 0x0A] @ object_text numberToString kvs"


text \<open>The fixed text of the template, line by line.\<close>

fun join_lines :: "string list \<Rightarrow> string" where
  "join_lines [] = []"
| "join_lines [l] = l"
| "join_lines (l # ls) = l @ CHR 0x0A # join_lines ls"

text \<open>From the end of the first line to \<open>const params = {\<close>.\<close>

definition component_head :: string where
  \<open>component_head = join_lines
     ['''',
      ''// Generated from Liquid Glass Editor'',
      ''// Full WebGL shader implementation with all effects'',
      '''',
      ''import { useEffect, useRef, useCallback } from 'react';'',
      '''',
      ''export default function GlassEffect() {'',
      ''  const canvasRef = useRef<HTMLCanvasElement>(null);'',
      ''  const glRef = useRef<WebGLRenderingContext | null>(null);'',
      ''  const programRef = useRef<WebGLProgram | null>(null);'',
      ''  const textureRef = useRef<WebGLTexture | null>(null);'',
      ''  const animationRef = useRef<number>();'',
      '''',
      ''  // Glass parameters'',
      ''  const params = {'',
      '''']\<close>

text \<open>From the closing brace of \<open>params\<close> to the opening quote of \<open>image.src\<close>:
  the shader sources, the program, the geometry and the texture.\<close>

definition shaders_and_setup :: string where
  \<open>shaders_and_setup = join_lines
     ['''',
      ''  };'',
      '''',
      ''  const vertexShaderSource = `'',
      ''    attribute vec2 a_position;'',
      ''    attribute vec2 a_texCoord;'',
      ''    varying vec2 v_texCoord;'',
      ''    '',
      ''    void main() {'',
      ''      gl_Position = vec4(a_position, 0.0, 1.0);'',
      ''      v_texCoord = a_texCoord;'',
      ''    }'',
      ''  `;'',
      '''',
      ''  const fragmentShaderSource = `'',
      ''    precision mediump float;'',
      ''    '',
      ''    uniform float u_time;'',
      ''    uniform vec2 u_resolution;'',
      ''    uniform vec2 u_mouse;'',
      ''    uniform sampler2D u_texture;'',
      ''    uniform float u_width;'',
      ''    uniform float u_height;'',
      ''    uniform vec3 u_tint;'',
      ''    uniform float u_saturation;'',
      ''    uniform float u_distortion;'',
      ''    uniform float u_blur;'',
      ''    uniform float u_cornerRadius;'',
      ''    uniform float u_chromaticAberration;'',
      ''    uniform float u_shape;'',
      ''    uniform float u_donutThickness;'',
      ''    uniform float u_starPoints;'',
      ''    uniform float u_starInnerRadius;'',
      ''    uniform float u_shadowIntensity;'',
      ''    uniform vec2 u_shadowOffset;'',
      ''    uniform float u_shadowBlur;'',
      ''    uniform float u_glassMode;'',
      ''    '',
      ''    varying vec2 v_texCoord;'',
      ''    '',
      ''    #define PI 3.141592653589793'',
      ''    '',
      ''    // Shape SDF functions'',
      ''    float sdRoundedRect(vec2 pos, vec2 halfSize, float radius) {'',
      ''      vec2 q = abs(pos) - halfSize + radius;'',
      ''      return min(max(q.x, q.y), 0.0) + length(max(q, 0.0)) - radius;'',
      ''    }'',
      ''    '',
      ''    float sdCircle(vec2 pos, float radius) {'',
      ''      return length(pos) - radius;'',
      ''    }'',
      ''    '',
      ''    float sdStar(vec2 pos, float outerRadius, float innerRadius, int points) {'',
      ''      float angle = atan(pos.y, pos.x);'',
      ''      float radius = length(pos);'',
      ''      float segmentAngle = 2.0 * PI / float(points);'',
      ''      float segment = floor(angle / segmentAngle + 0.5);'',
      ''      float segmentStart = segment * segmentAngle;'',
      ''      float localAngle = angle - segmentStart;'',
      ''      float halfSegment = segmentAngle * 0.5;'',
      ''      float t = abs(localAngle) / halfSegment;'',
      ''      float targetRadius = mix(outerRadius, innerRadius, t);'',
      ''      return radius - targetRadius;'',
      ''    }'',
      ''    '',
      ''    float sdHexagon(vec2 pos, float size) {'',
      ''      const vec3 k = vec3(-0.866025404, 0.5, 0.577350269);'',
      ''      pos = abs(pos);'',
      ''      pos -= 2.0 * min(dot(k.xy, pos), 0.0) * k.xy;'',
      ''      pos -= vec2(clamp(pos.x, -k.z * size, k.z * size), size);'',
      ''      return length(pos) * sign(pos.y);'',
      ''    }'',
      ''    '',
      ''    float sdDonut(vec2 pos, float outerRadius, float thickness) {'',
      ''      float innerRadius = outerRadius * (1.0 - thickness);'',
      ''      float d = length(pos);'',
      ''      return max(d - outerRadius, innerRadius - d);'',
      ''    }'',
      ''    '',
      ''    float getShapeSDF(vec2 pos) {'',
      ''      if (u_shape < 0.5) {'',
      ''        return sdRoundedRect(pos, vec2(u_width, u_height), u_cornerRadius);'',
      ''      } else if (u_shape < 1.5) {'',
      ''        return sdCircle(pos, min(u_width, u_height));'',
      ''      } else if (u_shape < 2.5) {'',
      ''        float outerRadius = min(u_width, u_height) * 0.8;'',
      ''        float innerRadius = outerRadius * u_starInnerRadius;'',
      ''        return sdStar(pos, outerRadius, innerRadius, int(u_starPoints));'',
      ''      } else if (u_shape < 3.5) {'',
      ''        return sdHexagon(pos, min(u_width, u_height) * 0.8);'',
      ''      } else {'',
      ''        return sdDonut(pos, min(u_width, u_height) * 0.8, u_donutThickness);'',
      ''      }'',
      ''    }'',
      ''    '',
      ''    vec3 saturate(vec3 color, float factor) {'',
      ''      float gray = dot(color, vec3(0.299, 0.587, 0.114));'',
      ''      return mix(vec3(gray), color, factor);'',
      ''    }'',
      ''    '',
      ''    vec3 sampleBlurred(vec2 uv, float blurAmount) {'',
      ''      vec3 color = vec3(0.0);'',
      ''      float total = 0.0;'',
      ''      '',
      ''      for (float x = -2.0; x <= 2.0; x += 1.0) {'',
      ''        for (float y = -2.0; y <= 2.0; y += 1.0) {'',
      ''          vec2 offset = vec2(x, y) * blurAmount / u_resolution;'',
      ''          float weight = exp(-(x*x + y*y) / (2.0 * blurAmount * blurAmount));'',
      ''          color += texture2D(u_texture, uv + offset).rgb * weight;'',
      ''          total += weight;'',
      ''        }'',
      ''      }'',
      ''      '',
      ''      return color / total;'',
      ''    }'',
      ''    '',
      ''    void main() {'',
      ''      vec2 fragCoord = v_texCoord * u_resolution;'',
      ''      vec2 centeredUV = fragCoord - u_mouse;'',
      ''      float sdf = getShapeSDF(centeredUV);'',
      ''      '',
      ''      // Background'',
      ''      vec3 bgColor = texture2D(u_texture, v_texCoord).rgb;'',
      ''      '',
      ''      // Glass effect'',
      ''      float normalizedInside = (sdf / u_height) + 1.0;'',
      ''      float boxMask = 1.0 - clamp(sdf, 0.0, 1.0);'',
      ''      '',
      ''      if (boxMask > 0.0) {'',
      ''        // Distortion'',
      ''        vec2 distortedUV = v_texCoord;'',
      ''        if (u_distortion > 0.0) {'',
      ''          vec2 grad = vec2('',
      ''            getShapeSDF(centeredUV + vec2(2.0, 0.0)) - getShapeSDF(centeredUV - vec2(2.0, 0.0)),'',
      ''            getShapeSDF(centeredUV + vec2(0.0, 2.0)) - getShapeSDF(centeredUV - vec2(0.0, 2.0))'',
      ''          );'',
      ''          grad = normalize(grad);'',
      ''          float offsetAmount = pow(abs(normalizedInside), 12.0) * -0.05 * u_distortion;'',
      ''          distortedUV += grad * offsetAmount;'',
      ''        }'',
      ''        '',
      ''        // Blur and chromatic aberration'',
      ''        vec3 glassColor = sampleBlurred(distortedUV, u_blur * 3.0);'',
      ''        '',
      ''        if (u_chromaticAberration > 0.0) {'',
      ''          vec2 center = vec2(0.5);'',
      ''          vec2 direction = normalize(distortedUV - center);'',
      ''          float dist = length(distortedUV - center);'',
      ''          float aberration = u_chromaticAberration * dist * 0.01;'',
      ''          '',
      ''          float r = sampleBlurred(distortedUV + direction * aberration * 1.2, u_blur * 3.0).r;'',
      ''          float g = glassColor.g;'',
      ''          float b = sampleBlurred(distortedUV - direction * aberration * 0.8, u_blur * 3.0).b;'',
      ''          glassColor = vec3(r, g, b);'',
      ''        }'',
      ''        '',
      ''        // Apply effects'',
      ''        glassColor = saturate(glassColor, u_saturation);'',
      ''        glassColor *= u_tint;'',
      ''        '',
      ''        // Highlights'',
      ''        float edgeBlendFactor = pow(normalizedInside, 12.0);'',
      ''        float highlightAmount = mix(0.0, 0.3, clamp(edgeBlendFactor, 0.0, 1.0));'',
      ''        glassColor += vec3(highlightAmount);'',
      ''        '',
      ''        // Shadow'',
      ''        if (u_shadowIntensity > 0.0) {'',
      ''          vec2 shadowPos = centeredUV - u_shadowOffset;'',
      ''          float shadowSdf = getShapeSDF(shadowPos);'',
      ''          float shadowMask = 1.0 - clamp(shadowSdf / u_shadowBlur, 0.0, 1.0);'',
      ''          shadowMask *= u_shadowIntensity;'',
      ''          bgColor = mix(bgColor, bgColor * (1.0 - shadowMask), shadowMask);'',
      ''        }'',
      ''        '',
      ''        gl_FragColor = vec4(mix(bgColor, glassColor, boxMask), 1.0);'',
      ''      } else {'',
      ''        gl_FragColor = vec4(bgColor, 1.0);'',
      ''      }'',
      ''    }'',
      ''  `;'',
      '''',
      ''  const createShader = useCallback((gl: WebGLRenderingContext, type: number, source: string) => {'',
      ''    const shader = gl.createShader(type);'',
      ''    if (!shader) return null;'',
      ''    '',
      ''    gl.shaderSource(shader, source);'',
      ''    gl.compileShader(shader);'',
      ''    '',
      ''    if (!gl.getShaderParameter(shader, gl.COMPILE_STATUS)) {'',
      ''      console.error('Shader error:', gl.getShaderInfoLog(shader));'',
      ''      gl.deleteShader(shader);'',
      ''      return null;'',
      ''    }'',
      ''    '',
      ''    return shader;'',
      ''  }, []);'',
      '''',
      ''  const createProgram = useCallback((gl: WebGLRenderingContext, vs: WebGLShader, fs: WebGLShader) => {'',
      ''    const program = gl.createProgram();'',
      ''    if (!program) return null;'',
      ''    '',
      ''    gl.attachShader(program, vs);'',
      ''    gl.attachShader(program, fs);'',
      ''    gl.linkProgram(program);'',
      ''    '',
      ''    if (!gl.getProgramParameter(program, gl.LINK_STATUS)) {'',
      ''      console.error('Program error:', gl.getProgramInfoLog(program));'',
      ''      return null;'',
      ''    }'',
      ''    '',
      ''    return program;'',
      ''  }, []);'',
      '''',
      ''  useEffect(() => {'',
      ''    const canvas = canvasRef.current;'',
      ''    if (!canvas) return;'',
      '''',
      ''    const gl = canvas.getContext('webgl');'',
      ''    if (!gl) return;'',
      ''    glRef.current = gl;'',
      '''',
      ''    // Create shaders'',
      ''    const vs = createShader(gl, gl.VERTEX_SHADER, vertexShaderSource);'',
      ''    const fs = createShader(gl, gl.FRAGMENT_SHADER, fragmentShaderSource);'',
      ''    if (!vs || !fs) return;'',
      '''',
      ''    const program = createProgram(gl, vs, fs);'',
      ''    if (!program) return;'',
      ''    programRef.current = program;'',
      '''',
      ''    // Setup geometry'',
      ''    const vertices = new Float32Array(['',
      ''      -1, -1, 0, 1,'',
      ''       1, -1, 1, 1,'',
      ''      -1,  1, 0, 0,'',
      ''       1,  1, 1, 0,'',
      ''    ]);'',
      '''',
      ''    const buffer = gl.createBuffer();'',
      ''    gl.bindBuffer(gl.ARRAY_BUFFER, buffer);'',
      ''    gl.bufferData(gl.ARRAY_BUFFER, vertices, gl.STATIC_DRAW);'',
      '''',
      ''    const posLoc = gl.getAttribLocation(program, 'a_position');'',
      ''    const texLoc = gl.getAttribLocation(program, 'a_texCoord');'',
      ''    '',
      ''    gl.enableVertexAttribArray(posLoc);'',
      ''    gl.enableVertexAttribArray(texLoc);'',
      ''    gl.vertexAttribPointer(posLoc, 2, gl.FLOAT, false, 16, 0);'',
      ''    gl.vertexAttribPointer(texLoc, 2, gl.FLOAT, false, 16, 8);'',
      '''',
      ''    // Load texture'',
      ''    const texture = gl.createTexture();'',
      ''    gl.bindTexture(gl.TEXTURE_2D, texture);'',
      ''    '',
      ''    const image = new Image();'',
      ''    image.crossOrigin = 'anonymous';'',
      ''    image.onload = () => {'',
      ''      gl.bindTexture(gl.TEXTURE_2D, texture);'',
      ''      gl.texImage2D(gl.TEXTURE_2D, 0, gl.RGBA, gl.RGBA, gl.UNSIGNED_BYTE, image);'',
      ''      gl.texParameteri(gl.TEXTURE_2D, gl.TEXTURE_WRAP_S, gl.CLAMP_TO_EDGE);'',
      ''      gl.texParameteri(gl.TEXTURE_2D, gl.TEXTURE_WRAP_T, gl.CLAMP_TO_EDGE);'',
      ''      gl.texParameteri(gl.TEXTURE_2D, gl.TEXTURE_MIN_FILTER, gl.LINEAR);'',
      ''      gl.texParameteri(gl.TEXTURE_2D, gl.TEXTURE_MAG_FILTER, gl.LINEAR);'',
      ''    };'',
      ''    image.src = '' @ [CHR 0x27]]\<close>

text \<open>From the closing quote of \<open>image.src\<close> to the factor of \<open>fontSize\<close>:
  the render loop and the head of the overlay.\<close>

definition render_and_overlay :: string where
  \<open>render_and_overlay = join_lines
     [''';'',
      ''    textureRef.current = texture;'',
      '''',
      ''    // Render loop'',
      ''    const render = () => {'',
      ''      if (!gl || !program || !texture) return;'',
      '''',
      ''      canvas.width = canvas.offsetWidth * devicePixelRatio;'',
      ''      canvas.height = canvas.offsetHeight * devicePixelRatio;'',
      ''      gl.viewport(0, 0, canvas.width, canvas.height);'',
      '''',
      ''      gl.useProgram(program);'',
      '''',
      ''      // Set uniforms'',
      ''      gl.uniform1f(gl.getUniformLocation(program, 'u_time'), Date.now() / 1000);'',
      ''      gl.uniform2f(gl.getUniformLocation(program, 'u_resolution'), canvas.width, canvas.height);'',
      ''      gl.uniform2f(gl.getUniformLocation(program, 'u_mouse'), params.mouseX * devicePixelRatio, params.mouseY * devicePixelRatio);'',
      ''      gl.uniform1i(gl.getUniformLocation(program, 'u_texture'), 0);'',
      ''      gl.uniform1f(gl.getUniformLocation(program, 'u_width'), params.width);'',
      ''      gl.uniform1f(gl.getUniformLocation(program, 'u_height'), params.height);'',
      ''      gl.uniform3f(gl.getUniformLocation(program, 'u_tint'), params.tintR, params.tintG, params.tintB);'',
      ''      gl.uniform1f(gl.getUniformLocation(program, 'u_saturation'), params.saturation);'',
      ''      gl.uniform1f(gl.getUniformLocation(program, 'u_distortion'), params.distortion);'',
      ''      gl.uniform1f(gl.getUniformLocation(program, 'u_blur'), params.blur);'',
      ''      gl.uniform1f(gl.getUniformLocation(program, 'u_cornerRadius'), params.cornerRadius);'',
      ''      gl.uniform1f(gl.getUniformLocation(program, 'u_chromaticAberration'), params.chromaticAberration);'',
      ''      gl.uniform1f(gl.getUniformLocation(program, 'u_shape'), params.shape);'',
      ''      gl.uniform1f(gl.getUniformLocation(program, 'u_donutThickness'), params.donutThickness);'',
      ''      gl.uniform1f(gl.getUniformLocation(program, 'u_starPoints'), params.starPoints);'',
      ''      gl.uniform1f(gl.getUniformLocation(program, 'u_starInnerRadius'), params.starInnerRadius);'',
      ''      gl.uniform1f(gl.getUniformLocation(program, 'u_shadowIntensity'), params.shadowIntensity);'',
      ''      gl.uniform2f(gl.getUniformLocation(program, 'u_shadowOffset'), params.shadowOffsetX, params.shadowOffsetY);'',
      ''      gl.uniform1f(gl.getUniformLocation(program, 'u_shadowBlur'), params.shadowBlur);'',
      ''      gl.uniform1f(gl.getUniformLocation(program, 'u_glassMode'), params.glassMode === 'dark' ? 1.0 : 0.0);'',
      '''',
      ''      gl.drawArrays(gl.TRIANGLE_STRIP, 0, 4);'',
      ''      animationRef.current = requestAnimationFrame(render);'',
      ''    };'',
      '''',
      ''    render();'',
      '''',
      ''    return () => {'',
      ''      if (animationRef.current) {'',
      ''        cancelAnimationFrame(animationRef.current);'',
      ''      }'',
      ''    };'',
      ''  }, [createShader, createProgram]);'',
      '''',
      ''  return ('',
      ''    <div className="relative w-full h-screen overflow-hidden">'',
      ''      <canvas '',
      ''        ref={canvasRef} '',
      ''        className="w-full h-full"'',
      ''      />'',
      ''      {/* Text/Icon Overlay */}'',
      ''      <div'',
      ''        className="absolute pointer-events-none"'',
      ''        style={{'',
      ''          left: params.mouseX,'',
      ''          top: params.mouseY,'',
      ''          transform: 'translate(-50%, -50%)','',
      ''          fontSize: Math.min(params.width, params.height) * '']\<close>

text \<open>From the factor of \<open>fontSize\<close> to the content of the overlay.\<close>

definition overlay_style :: string where
  \<open>overlay_style = join_lines
     ['','',
      ''          color: `rgb(${Math.round(params.iconColorR * 255)}, ${Math.round(params.iconColorG * 255)}, ${Math.round(params.iconColorB * 255)})`,'',
      ''          fontFamily: '-apple-system, "SF Pro Display", system-ui, sans-serif','',
      ''          textShadow: '0 2px 4px rgba(0,0,0,0.3)'' @ [CHR 0x27],
      ''        }}'',
      ''      >'',
      ''        '']\<close>

text \<open>From the content of the overlay to the shape named in the closing comment.\<close>

definition component_foot :: string where
  \<open>component_foot = join_lines
     ['''',
      ''      </div>'',
      ''    </div>'',
      ''  );'',
      ''}'',
      '''',
      ''/*'',
      '' * CONFIGURATION:'',
      '' * Shape: '']\<close>

text \<open>The end of the closing comment.\<close>

definition usage_notes :: string where
  \<open>usage_notes = join_lines
     ['')'',
      '' * '',
      '' * USAGE:'',
      '' * 1. Install React in your project'',
      '' * 2. Copy this component to your project'',
      '' * 3. Use <GlassEffect /> in your app'',
      '' * 4. Customize params object for interactive controls'',
      '' */'']\<close>

datatype exn = TypeError

text \<open>A template substitutes the text \<open>undefined\<close> for a string that is not there.\<close>

definition interpolate :: "jsstring option \<Rightarrow> jsstring" where
  "interpolate s = (case s of None \<Rightarrow> ascii ''undefined'' | Some t \<Rightarrow> t)"

text \<open>
  The text that \<open>generateComponentCode\<close> returns is the template with every \<open>${...}\<close>
  replaced: the part before the fields of \<open>params\<close>, the fields, and the part after
  them. The name, the background URL and the overlay text go in as they are.
\<close>

definition text_before_params :: "SavedDesign \<Rightarrow> jsstring" where
  "text_before_params design =
     ascii ''// Glass Effect Component - '' @ interpolate (name design) @ ascii component_head"

definition text_after_params ::
  "(real \<Rightarrow> jsstring) \<Rightarrow> SavedDesign \<Rightarrow> ShaderParams \<Rightarrow> jsstring" where
  "text_after_params numberToString design p =
     ascii shaders_and_setup @ interpolate (backgroundUrl design)
     @ ascii render_and_overlay @ numberToString (iconSize p)
     @ ascii overlay_style @ text' p
     @ ascii component_foot @ ascii (shape_name (shape p))
     @ [0x0A] @ ascii '' * Dimensions: '' @ numberToString (width p)
     @ ascii ''x'' @ numberToString (height p)
     @ ascii ''px'' @ [0x0A] @ ascii '' * Effects: Blur '' @ numberToString (blur p)
     @ ascii '', Distortion '' @ numberToString (distortion p)
     @ ascii '', Saturation '' @ numberToString (saturation p)
     @ [0x0A] @ ascii '' * Chromatic Aberration: '' @ numberToString (chromaticAberration p)
     @ [0x0A] @ ascii '' * Shadow: '' @ numberToString (shadowIntensity p)
     @ ascii '' @ ('' @ numberToString (shadowOffsetX p)
     @ ascii '', '' @ numberToString (shadowOffsetY p)
     @ ascii usage_notes"

definition generateComponentCode :: "(real \<Rightarrow> jsstring) \<Rightarrow> SavedDesign \<Rightarrow> exn + jsstring" where
  "generateComponentCode numberToString design =
     (case params design of
        None \<Rightarrow> Inl TypeError
      | Some p \<Rightarrow>
          Inr (text_before_params design
               @ object_text numberToString (params_literal p)
               @ text_after_params numberToString design p))"




subsection \<open>The manager's state and handlers\<close>

record manager =
  savedDesigns :: "SavedDesign list"
  isOpen :: bool
  isSaveDialogOpen :: bool
  isCodeDialogOpen :: bool
  designName :: jsstring
  selectedDesign :: "SavedDesign option"
  generatedCode :: jsstring
  currentParams :: ShaderParams
  currentBackgroundUrl :: jsstring
  localStorage :: "stored_text option"
  toasts :: "toast list"
  console_errors :: nat

text \<open>The effect that runs once, when the component is mounted.\<close>

definition load_effect :: "manager \<Rightarrow> manager" where
  "load_effect s =
     (case localStorage s of
        None \<Rightarrow> s
      | Some Empty \<Rightarrow> s
      | Some Garbled \<Rightarrow> s\<lparr>console_errors := console_errors s + 1\<rparr>
      | Some (Doc designs) \<Rightarrow> s\<lparr>savedDesigns := designs\<rparr>)"

text \<open>The effect that runs whenever \<open>savedDesigns\<close> has changed.\<close>

definition persist_effect :: "manager \<Rightarrow> manager" where
  "persist_effect s =
     (if length (savedDesigns s) > 0 then s\<lparr>localStorage := Some (Doc (savedDesigns s))\<rparr>
      else s)"

text \<open>
  \<open>trim\<close> drops white space and line terminators at both ends: tab, line feed, vertical
  tab, form feed, carriage return, space, no-break space, the Ogham space mark, the spaces
  U+2000 to U+200A, line and paragraph separator, narrow no-break space, medium
  mathematical space, ideographic space and the byte order mark.
\<close>

definition isWhiteSpace :: "16 word \<Rightarrow> bool" where
  "isWhiteSpace c \<longleftrightarrow>
     c \<in> set [0x0009, 0x000A, 0x000B, 0x000C, 0x000D, 0x0020, 0x00A0, 0x1680,
              0x2000, 0x2001, 0x2002, 0x2003, 0x2004, 0x2005, 0x2006, 0x2007, 0x2008,
              0x2009, 0x200A, 0x2028, 0x2029, 0x202F, 0x205F, 0x3000, 0xFEFF]"

definition trim :: "jsstring \<Rightarrow> jsstring" where
  "trim s = rev (dropWhile isWhiteSpace (rev (dropWhile isWhiteSpace s)))"

fun toString :: "nat \<Rightarrow> jsstring" where
  "toString n =
     (if n < 10 then [ascii ''0123456789'' ! n]
      else toString (n div 10) @ [ascii ''0123456789'' ! (n mod 10)])"

text \<open>
  \<open>handleSaveDesign\<close>; the three readings of \<open>Date.now()\<close> are arguments, in the order
  in which the handler takes them.
\<close>

definition handleSaveDesign :: "nat \<Rightarrow> nat \<Rightarrow> nat \<Rightarrow> manager \<Rightarrow> manager" where
  "handleSaveDesign now1 now2 now3 s =
     (if trim (designName s) = [] then s\<lparr>toasts := toasts s @ [EnterName]\<rparr>
      else
        (let newDesign =
               \<lparr>id' = Some (toString now1),
                name = Some (trim (designName s)),
                params = Some (currentParams s),
                backgroundUrl = Some (currentBackgroundUrl s),
                createdAt = Some now2,
                updatedAt = Some now3\<rparr>
         in s\<lparr>savedDesigns := newDesign # savedDesigns s,
              designName := [],
              isSaveDialogOpen := False,
              toasts := toasts s @ [SavedSuccessfully (trim (designName s))]\<rparr>))"

definition handleDeleteDesign :: "jsstring \<Rightarrow> manager \<Rightarrow> manager" where
  "handleDeleteDesign i s =
     (let design = find (\<lambda>d. id' d = Some i) (savedDesigns s)
      in s\<lparr>savedDesigns := filter (\<lambda>d. id' d \<noteq> Some i) (savedDesigns s),
           localStorage := Some (Doc (filter (\<lambda>d. id' d \<noteq> Some i) (savedDesigns s))),
           toasts := toasts s @ [Deleted (case design of None \<Rightarrow> None | Some d \<Rightarrow> name d)]\<rparr>)"

definition handleExportCode ::
  "(real \<Rightarrow> jsstring) \<Rightarrow> SavedDesign \<Rightarrow> manager \<Rightarrow> exn + manager" where
  "handleExportCode numberToString design s =
     (case generateComponentCode numberToString design of
        Inl e \<Rightarrow> Inl e
      | Inr code \<Rightarrow>
          Inr (s\<lparr>generatedCode := code, selectedDesign := Some design,
                 isCodeDialogOpen := True\<rparr>))"

section \<open>Concrete inputs\<close>

text \<open>
  A rectangle of half-extents 100 and 60 about the pointer at (400.5, 300.5), the centre
  of a pixel of the canvas of 800 by 600, with distortion on.
\<close>

definition flat_rectangle :: uniforms where
  "flat_rectangle =
     \<lparr>u_time = 0, u_resolution = (800, 600), u_mouse = (400.5, 300.5), u_width = 100,
      u_height = 60,
      u_tint = (1, 1, 1), u_saturation = 1, u_distortion = 1, u_blur = 1, u_cornerRadius = 0,
      u_chromaticAberration = 0, u_shape = 0, u_donutThickness = 0.3, u_starPoints = 5,
      u_starInnerRadius = 0.5, u_shadowIntensity = 0, u_shadowOffset = (0, 0), u_shadowBlur = 10,
      u_glassMode = 0\<rparr>"

text \<open>
  A circle of radius 50 about the pointer at (400.5, 300.5), no distortion, with a full
  shadow thrown 20 pixels to the right.
\<close>

definition shadow_circle :: uniforms where
  "shadow_circle =
     \<lparr>u_time = 0, u_resolution = (800, 600), u_mouse = (400.5, 300.5), u_width = 50,
      u_height = 50,
      u_tint = (1, 1, 1), u_saturation = 1, u_distortion = 0, u_blur = 1, u_cornerRadius = 0,
      u_chromaticAberration = 0, u_shape = 1, u_donutThickness = 0.3, u_starPoints = 5,
      u_starInnerRadius = 0.5, u_shadowIntensity = 1, u_shadowOffset = (20, 0), u_shadowBlur = 10,
      u_glassMode = 0\<rparr>"

text \<open>A star of five points with inner radius 0.5, in a box of half-extents 100 and 60.\<close>

definition five_star :: uniforms where
  "five_star =
     \<lparr>u_time = 0, u_resolution = (100, 100), u_mouse = (0, 0), u_width = 100, u_height = 60,
      u_tint = (1, 1, 1), u_saturation = 1, u_distortion = 0, u_blur = 1, u_cornerRadius = 0,
      u_chromaticAberration = 0, u_shape = 2, u_donutThickness = 0.3, u_starPoints = 5,
      u_starInnerRadius = 0.5, u_shadowIntensity = 0, u_shadowOffset = (0, 0), u_shadowBlur = 10,
      u_glassMode = 0\<rparr>"

text \<open>A background that is white everywhere.\<close>

definition white :: sampler2D where
  "white uv = (1, 1, 1)"

text \<open>
  The texture coordinates of the pixel under the pointer and of the pixel 60 to its right.
\<close>

definition under_pointer :: vec2 where
  "under_pointer = (801 / 1600, 601 / 1200)"

definition right_of_pointer :: vec2 where
  "right_of_pointer = (921 / 1600, 601 / 1200)"

text \<open>A parameter set whose shape, the circle, uses none of the shape-specific fields.\<close>

definition frost_params :: ShaderParams where
  "frost_params =
     \<lparr>width = 120, height = 80, mouseX = 400, mouseY = 300,
      tintR = 1, tintG = 1, tintB = 1,
      saturation = 1.2, distortion = 0.5, blur = 2,
      text' = ascii ''Glass'', iconSize = 0.4,
      iconColorR = 1, iconColorG = 1, iconColorB = 1,
      glassMode = light,
      shadowIntensity = 0.3, shadowOffsetX = 0, shadowOffsetY = 8, shadowBlur = 20,
      cornerRadius = 24, chromaticAberration = 1,
      shape = circle, donutThickness = 0.3, starPoints = 5, starInnerRadius = 0.5\<rparr>"

definition frost :: SavedDesign where
  "frost =
     \<lparr>id' = Some (ascii ''1730000000000''), name = Some (ascii ''Frost''),
      params = Some frost_params, backgroundUrl = Some (ascii ''bg.jpg''),
      createdAt = Some 1730000000000, updatedAt = Some 1730000000000\<rparr>"

text \<open>A second complete design, a star.\<close>

definition mist :: SavedDesign where
  "mist =
     \<lparr>id' = Some (ascii ''1730000000500''), name = Some (ascii ''Mist''),
      params = Some (frost_params\<lparr>shape := star\<rparr>), backgroundUrl = Some (ascii ''bg.jpg''),
      createdAt = Some 1730000000500, updatedAt = Some 1730000000500\<rparr>"

text \<open>A stored object that has an id and a name and nothing else.\<close>

definition partial_design :: SavedDesign where
  "partial_design =
     \<lparr>id' = Some (ascii ''7''), name = Some (ascii ''Broken''), params = None,
      backgroundUrl = None, createdAt = None, updatedAt = None\<rparr>"

text \<open>
  The manager as it is mounted, with the partial object and a complete one in the store.
\<close>

definition studio :: manager where
  "studio =
     \<lparr>savedDesigns = [], isOpen = False, isSaveDialogOpen = False, isCodeDialogOpen = False,
      designName = [], selectedDesign = None, generatedCode = [],
      currentParams = frost_params, currentBackgroundUrl = ascii ''bg.jpg'',
      localStorage = Some (Doc [partial_design, frost]), toasts = [], console_errors = 0\<rparr>"

text \<open>
  The manager with two complete designs saved, the save dialog open and a name typed into
  it: a no-break space, the words, a space.
\<close>

definition workshop :: manager where
  "workshop =
     \<lparr>savedDesigns = [mist, frost], isOpen = False, isSaveDialogOpen = True,
      isCodeDialogOpen = False, designName = [0xA0] @ ascii ''Frost 2 '',
      selectedDesign = None, generatedCode = [],
      currentParams = frost_params, currentBackgroundUrl = ascii ''bg.jpg'',
      localStorage = Some (Doc [mist, frost]), toasts = [], console_errors = 0\<rparr>"



section \<open>Properties of the shader\<close>

subsection \<open>Branches of \<open>getShapeSDF\<close> and values of the built-in functions\<close>

lemma PI_pos: "0 < PI"
  by (simp add: PI_def)

lemma rect_sdf:
  "u_shape u < 1 / 2 \<Longrightarrow>
     getShapeSDF u pos = Some (sdRoundedRect pos (u_width u, u_height u) (u_cornerRadius u))"
  by (simp add: getShapeSDF_def)

lemma circle_sdf:
  "1 / 2 \<le> u_shape u \<Longrightarrow> u_shape u < 3 / 2 \<Longrightarrow>
     getShapeSDF u pos = Some (sdCircle pos (min (u_width u) (u_height u)))"
  by (simp add: getShapeSDF_def)

lemma star_sdf:
  "3 / 2 \<le> u_shape u \<Longrightarrow> u_shape u < 5 / 2 \<Longrightarrow>
     getShapeSDF u pos =
       sdStar pos (min (u_width u) (u_height u) * 0.8)
         (min (u_width u) (u_height u) * 0.8 * u_starInnerRadius u) (to_int (u_starPoints u))"
  by (simp add: getShapeSDF_def Let_def)

lemma normalize2_zero: "normalize2 (0, 0) = None"
  by (simp add: normalize2_def length2_def fdiv_def)

lemma length2_unit: "length2 (cos a, sin a) = 1"
  by (simp add: length2_def power2_eq_square [symmetric])

lemma atan_east: "atan 0 1 = Some 0"
  by (simp add: atan_def)

lemma PI_fifth_small: "PI / 5 < pi / 2"
proof -
  have "PI / 5 < 1" by (simp add: PI_def)
  also have "1 \<le> pi / 2" using pi_ge_two by simp
  finally show ?thesis .
qed

lemma atan_mid: "atan (sin (PI / 5)) (cos (PI / 5)) = Some (PI / 5)"
proof -
  have lo: "- (pi / 2) < PI / 5"
    using PI_pos pi_gt_zero by (smt (verit) divide_pos_pos)
  have c: "0 < cos (PI / 5)"
    using lo PI_fifth_small by (rule cos_gt_zero_pi)
  have "arctan (sin (PI / 5) / cos (PI / 5)) = PI / 5"
    using arctan_tan [OF lo PI_fifth_small] by (simp add: tan_def)
  then show ?thesis
    using c by (simp add: atan_def)
qed

subsection \<open>Saturation\<close>

text \<open>
  C9. For every colour, \<open>saturate\<close> at factor 1 gives the colour back, and at factor 0 it
  gives a grey whose three components all are the luma \<open>0.299 R + 0.587 G + 0.114 B\<close>.
\<close>

theorem saturate_identity_and_gray:
  "saturate (r, g, b) 1 = (r, g, b)
   \<and> saturate (r, g, b) 0 =
       (0.299 * r + 0.587 * g + 0.114 * b,
        0.299 * r + 0.587 * g + 0.114 * b,
        0.299 * r + 0.587 * g + 0.114 * b)"
  by (simp add: saturate_def dot3_def mix3_def mix_def splat3_def Let_def)

subsection \<open>Blur of amount zero\<close>

lemma blurTap_zero: "blurTap u tex uv 0 x y acc = None"
  by (cases "div2 (scale2 (x, y) 0) (u_resolution u)") (simp_all add: blurTap_def fdiv_def)

lemma blurTap_defined:
  assumes "blurAmount \<noteq> 0" and "fst (u_resolution u) \<noteq> 0" and "snd (u_resolution u) \<noteq> 0"
  shows "\<exists>acc'. blurTap u tex uv blurAmount x y acc = Some acc' \<and> snd acc < snd acc'"
  using assms by (simp add: blurTap_def div2_def fdiv_def Let_def)

lemma blurLoopY_defined:
  assumes "blurAmount \<noteq> 0" and "fst (u_resolution u) \<noteq> 0" and "snd (u_resolution u) \<noteq> 0"
  shows "\<exists>acc'. blurLoopY u tex uv blurAmount x y acc = Some acc'
           \<and> snd acc \<le> snd acc' \<and> (y \<le> 2 \<longrightarrow> snd acc < snd acc')"
  using assms
proof (induction u tex uv blurAmount x y acc rule: blurLoopY.induct)
  case (1 u tex uv blurAmount x y acc)
  show ?case
  proof (cases "y \<le> 2")
    case False
    then show ?thesis
      by (simp add: blurLoopY.simps [of _ _ _ _ _ y])
  next
    case True
    from blurTap_defined [OF "1.prems", of tex uv x y acc]
    obtain a where tap: "blurTap u tex uv blurAmount x y acc = Some a" and lt: "snd acc < snd a"
      by blast
    from "1.IH" [OF True tap "1.prems"]
    obtain a' where rest: "blurLoopY u tex uv blurAmount x (y + 1) a = Some a'"
      and le: "snd a \<le> snd a'"
      by blast
    show ?thesis
      using True tap rest lt le by (simp add: blurLoopY.simps [of _ _ _ _ _ y])
  qed
qed

lemma blurLoopX_defined:
  assumes "blurAmount \<noteq> 0" and "fst (u_resolution u) \<noteq> 0" and "snd (u_resolution u) \<noteq> 0"
  shows "\<exists>acc'. blurLoopX u tex uv blurAmount x acc = Some acc'
           \<and> snd acc \<le> snd acc' \<and> (x \<le> 2 \<longrightarrow> snd acc < snd acc')"
  using assms
proof (induction u tex uv blurAmount x acc rule: blurLoopX.induct)
  case (1 u tex uv blurAmount x acc)
  show ?case
  proof (cases "x \<le> 2")
    case False
    then show ?thesis
      by (simp add: blurLoopX.simps [of _ _ _ _ x])
  next
    case True
    from blurLoopY_defined [OF "1.prems", of tex uv x "- 2" acc]
    obtain a where row: "blurLoopY u tex uv blurAmount x (- 2) acc = Some a"
      and lt: "snd acc < snd a"
      by auto
    from "1.IH" [OF True row "1.prems"]
    obtain a' where rest: "blurLoopX u tex uv blurAmount (x + 1) a = Some a'"
      and le: "snd a \<le> snd a'"
      by blast
    show ?thesis
      using True row rest lt le by (simp add: blurLoopX.simps [of _ _ _ _ x])
  qed
qed

lemma sampleBlurred_defined:
  assumes "blurAmount \<noteq> 0" and "fst (u_resolution u) \<noteq> 0" and "snd (u_resolution u) \<noteq> 0"
  shows "\<exists>c. sampleBlurred u tex uv blurAmount = Some c"
proof -
  from blurLoopX_defined [OF assms, of tex uv "- 2" "((0, 0, 0), 0)"]
  obtain a where loop: "blurLoopX u tex uv blurAmount (- 2) ((0, 0, 0), 0) = Some a"
    and pos: "0 < snd a"
    by auto
  obtain r g b t where a: "a = ((r, g, b), t)"
    by (cases a) auto
  show ?thesis
    using loop pos by (simp add: sampleBlurred_def a div3_def fdiv_def)
qed

text \<open>
  C1. The claim is that \<open>sampleBlurred\<close> at \<open>blurAmount = 0\<close> returns the texel at \<open>uv\<close>
  with no division by zero. The code has no branch for a blur of zero: every tap divides by
  \<open>2.0 * blurAmount * blurAmount\<close>, which is zero, so for every texture, resolution and
  \<open>uv\<close> the result is left unspecified; it is not the texel.
\<close>

theorem sampleBlurred_zero_unspecified:
  "sampleBlurred u tex uv 0 = None"
  by (simp add: sampleBlurred_def blurLoopX.simps [of _ _ _ _ "- 2"]
      blurLoopY.simps [of _ _ _ _ _ "- 2"] blurTap_zero)

subsection \<open>Distortion\<close>

lemma flat_rectangle_samples:
  "sdRoundedRect (2, 0) (100, 60) 0 = - 60"
  "sdRoundedRect (- 2, 0) (100, 60) 0 = - 60"
  "sdRoundedRect (0, 2) (100, 60) 0 = - 58"
  "sdRoundedRect (0, - 2) (100, 60) 0 = - 58"
  "sdRoundedRect (0, 0) (100, 60) 0 = - 60"
  by (simp_all add: sdRoundedRect_def add2_def sub2_def abs2_def max2_def length2_def)

lemma flat_rectangle_centered:
  "sub2 (mul2 under_pointer (u_resolution (flat_rectangle\<lparr>u_distortion := d\<rparr>)))
     (u_mouse (flat_rectangle\<lparr>u_distortion := d\<rparr>)) = (0, 0)"
  by (simp add: flat_rectangle_def under_pointer_def sub2_def mul2_def)

lemma flat_rectangle_centre_sdf:
  "getShapeSDF (flat_rectangle\<lparr>u_distortion := d\<rparr>) (0, 0) = Some (- 60)"
  by (simp add: rect_sdf flat_rectangle_def flat_rectangle_samples)

lemma flat_rectangle_distortedUV:
  "distortedUV (flat_rectangle\<lparr>u_distortion := 1\<rparr>) (0, 0) (Some 0) under_pointer = None"
  by (simp add: distortedUV_def rect_sdf flat_rectangle_def add2_def sub2_def
      flat_rectangle_samples normalize2_zero)

lemma flat_rectangle_distorted: "main flat_rectangle tex under_pointer = None"
proof -
  have d: "flat_rectangle = flat_rectangle\<lparr>u_distortion := 1\<rparr>"
    by (simp add: flat_rectangle_def)
  have h: "u_height (flat_rectangle\<lparr>u_distortion := 1\<rparr>) = 60"
    by (simp add: flat_rectangle_def)
  have "main (flat_rectangle\<lparr>u_distortion := 1\<rparr>) tex under_pointer = None"
    unfolding main_def Let_def flat_rectangle_centered
    by (simp add: flat_rectangle_centre_sdf clamp_def h fdiv_def flat_rectangle_distortedUV)
  then show ?thesis
    using d by simp
qed

lemma flat_rectangle_undistorted:
  "\<exists>c. main (flat_rectangle\<lparr>u_distortion := 0\<rparr>) tex under_pointer = Some c"
proof -
  let ?u = "flat_rectangle\<lparr>u_distortion := 0\<rparr>"
  have f: "u_height ?u = 60" "u_distortion ?u = 0" "u_blur ?u = 1"
    "u_chromaticAberration ?u = 0" "u_shadowIntensity ?u = 0"
    "fst (u_resolution ?u) \<noteq> 0" "snd (u_resolution ?u) \<noteq> 0"
    by (simp_all add: flat_rectangle_def)
  from sampleBlurred_defined [of 3 ?u tex under_pointer] f(6,7)
  obtain c where blurred: "sampleBlurred ?u tex under_pointer 3 = Some c"
    by auto
  show ?thesis
    unfolding main_def Let_def flat_rectangle_centered
    by (simp add: flat_rectangle_centre_sdf clamp_def f(1-5) fdiv_def distortedUV_def
        blurred chromatic_def pow12_def shadowed_def split: prod.splits)
qed

text \<open>
  C2. The claim is that a zero gradient of the shape's distance gives a zero displacement.
  At the centre of the rectangle \<open>flat_rectangle\<close> (the pixel under the pointer) the two
  central differences are both zero, \<open>normalize\<close> is applied to the zero vector with no
  check, and the unspecified result reaches the pixel: \<open>main\<close> has no specified colour
  there, while with the distortion turned off the same pixel has one.
\<close>

theorem zero_gradient_reaches_pixel:
  "main flat_rectangle tex under_pointer = None
   \<and> (\<exists>c. main (flat_rectangle\<lparr>u_distortion := 0\<rparr>) tex under_pointer = Some c)"
  by (rule conjI [OF flat_rectangle_distorted flat_rectangle_undistorted])

text \<open>
  C5. When \<open>u_distortion\<close> is 0 the distortion block is skipped: the coordinate handed to
  the sampler is \<open>v_texCoord\<close> itself, whatever the point, the shape and the other
  parameters are.
\<close>

theorem no_distortion_no_displacement:
  "u_distortion u = 0 \<Longrightarrow> distortedUV u centeredUV normalizedInside v_texCoord = Some v_texCoord"
  by (simp add: distortedUV_def)

theorem no_distortion_no_displacement_witness:
  "u_distortion shadow_circle = 0
   \<and> distortedUV shadow_circle (60, 0) (Some (6 / 5)) right_of_pointer = Some right_of_pointer"
proof -
  have h: "u_distortion shadow_circle = 0"
    by (simp add: shadow_circle_def)
  show ?thesis
    using h no_distortion_no_displacement [OF h, of "(60, 0)" "Some (6 / 5)" right_of_pointer]
    by simp
qed

subsection \<open>Shadow and the final blend\<close>

lemma main_mask_zero:
  assumes "getShapeSDF u (sub2 (mul2 v_texCoord (u_resolution u)) (u_mouse u)) = Some sdf"
    and "1 \<le> sdf"
  shows "main u tex v_texCoord =
     Some (fst (tex v_texCoord), fst (snd (tex v_texCoord)), snd (snd (tex v_texCoord)), 1)"
  using assms by (simp add: main_def Let_def clamp_def split: prod.splits)

lemma shadow_circle_sdf: "getShapeSDF shadow_circle (a, 0) = Some (\<bar>a\<bar> - 50)"
  by (simp add: circle_sdf shadow_circle_def sdCircle_def length2_def)

lemma shadow_circle_centered:
  "sub2 (mul2 right_of_pointer (u_resolution shadow_circle)) (u_mouse shadow_circle) = (60, 0)"
  by (simp add: shadow_circle_def right_of_pointer_def sub2_def mul2_def)

text \<open>
  C3, the claim as stated fails. With \<open>shadow_circle\<close> the pixel 60 to the right of the
  pointer is 10 outside the circle, so the glass mask \<open>1 - clamp(sdf, 0, 1)\<close> is 0 there,
  and it lies inside the shadow, which would darken the white background to black; the
  output is the white background.
\<close>

theorem mask_zero_not_shadowed:
  "getShapeSDF shadow_circle
       (sub2 (mul2 right_of_pointer (u_resolution shadow_circle)) (u_mouse shadow_circle)) = Some 10
   \<and> clamp 10 0 1 = Some 1
   \<and> main shadow_circle white right_of_pointer = Some (1, 1, 1, 1)
   \<and> shadowed shadow_circle
       (sub2 (mul2 right_of_pointer (u_resolution shadow_circle)) (u_mouse shadow_circle))
       (white right_of_pointer) = Some (0, 0, 0)"
proof -
  have a: "getShapeSDF shadow_circle (60, 0) = Some 10"
    by (simp add: shadow_circle_sdf)
  have b: "main shadow_circle white right_of_pointer = Some (1, 1, 1, 1)"
    using main_mask_zero [of shadow_circle right_of_pointer 10 white] a shadow_circle_centered
    by (simp add: white_def)
  have sh: "u_shadowIntensity shadow_circle = 1" "u_shadowOffset shadow_circle = (20, 0)"
    "u_shadowBlur shadow_circle = 10"
    by (simp_all add: shadow_circle_def)
  have c: "shadowed shadow_circle (60, 0) (white right_of_pointer) = Some (0, 0, 0)"
    by (simp add: shadowed_def sh sub2_def shadow_circle_sdf fdiv_def clamp_def white_def
        mix3_def mix_def scale3_def)
  show ?thesis
    unfolding shadow_circle_centered using a b c by (simp add: clamp_def)
qed

text \<open>
  C3, amended. For every pixel where the glass mask is 0, that is where the distance is
  at least 1, the output is the background texel as it is, with alpha 1: the shadow block
  stands inside the branch for a positive mask and does not run for such a pixel.
\<close>

theorem mask_zero_plain_background:
  assumes "getShapeSDF u (sub2 (mul2 v_texCoord (u_resolution u)) (u_mouse u)) = Some sdf"
    and "1 \<le> sdf"
  shows "main u tex v_texCoord =
     Some (fst (tex v_texCoord), fst (snd (tex v_texCoord)), snd (snd (tex v_texCoord)), 1)"
  using assms by (rule main_mask_zero)

theorem mask_zero_plain_background_witness:
  "getShapeSDF shadow_circle
       (sub2 (mul2 right_of_pointer (u_resolution shadow_circle)) (u_mouse shadow_circle)) = Some 10
   \<and> (1 :: real) \<le> 10
   \<and> main shadow_circle white right_of_pointer = Some (1, 1, 1, 1)"
proof -
  have a: "getShapeSDF shadow_circle
       (sub2 (mul2 right_of_pointer (u_resolution shadow_circle)) (u_mouse shadow_circle)) = Some 10"
    by (simp add: shadow_circle_centered shadow_circle_sdf)
  have b: "(1 :: real) \<le> 10"
    by simp
  show ?thesis
    using a b mask_zero_plain_background [OF a b, of white] by (simp add: white_def)
qed

subsection \<open>The star\<close>

lemma sdStar_tip:
  assumes "atan (snd pos) (fst pos) = Some (of_int k * (2 * PI / 5))"
  shows "sdStar pos outer inner 5 = Some (length2 pos - outer)"
proof -
  have "\<lfloor>(of_int k :: real) + 5 / 10\<rfloor> = k"
    by linarith
  then show ?thesis
    using assms PI_pos by (simp add: sdStar_def fdiv_def mix_def)
qed

lemma sdStar_mid:
  assumes "atan (snd pos) (fst pos) = Some ((of_int k + 1 / 2) * (2 * PI / 5))"
  shows "sdStar pos outer inner 5 = Some (length2 pos - inner)"
proof -
  let ?seg = "2 * PI / 5"
  have seg: "?seg \<noteq> 0"
    using PI_pos by simp
  have q: "(of_int k + 1 / 2) * ?seg / ?seg = of_int k + 1 / 2"
    using seg by simp
  have fl: "\<lfloor>(of_int k :: real) + 1 / 2 + 5 / 10\<rfloor> = k + 1"
    by linarith
  have loc: "\<bar>(of_int k + 1 / 2) * ?seg - of_int (k + 1) * ?seg\<bar> = ?seg * (5 / 10)"
    using PI_pos by (simp add: algebra_simps abs_if)
  have s1: "fdiv (2 * PI) (of_int 5) = Some ?seg"
    by (simp add: fdiv_def)
  have s2: "fdiv ((of_int k + 1 / 2) * ?seg) ?seg = Some (of_int k + 1 / 2)"
    unfolding fdiv_def using seg q by simp
  have s3: "fdiv (?seg * (5 / 10)) (?seg * (5 / 10)) = Some 1"
    unfolding fdiv_def using seg by simp
  show ?thesis
    unfolding sdStar_def assms Let_def
    by (simp only: s1 s2 fl loc s3 bind.bind_lunit mix_def) simp
qed

text \<open>
  C6. For the star with \<open>starPoints = 5\<close> and \<open>starInnerRadius = 0.5\<close>: at a point whose
  angle is a whole multiple of the segment angle \<open>2 PI / 5\<close> (a tip) the distance is the
  point's radius minus the outer radius \<open>0.8 * min(width, height)\<close>, and at a point whose
  angle lies half a segment further (midway between two tips) it is the point's radius
  minus half the outer radius. The angles are multiples of the shader's own \<open>PI\<close>.
\<close>

theorem star_tips_and_midpoints:
  assumes "u_shape u = 2" and "u_starPoints u = 5" and "u_starInnerRadius u = 1 / 2"
    and "atan (snd pos) (fst pos) = Some a"
  shows "(a = of_int k * (2 * PI / 5) \<longrightarrow>
            getShapeSDF u pos = Some (length2 pos - 0.8 * min (u_width u) (u_height u)))
       \<and> (a = (of_int k + 1 / 2) * (2 * PI / 5) \<longrightarrow>
            getShapeSDF u pos = Some (length2 pos - 0.8 * min (u_width u) (u_height u) * 0.5))"
proof -
  have five: "to_int (u_starPoints u) = 5"
    using assms(2) by (simp add: to_int_def)
  have star: "getShapeSDF u pos =
      sdStar pos (min (u_width u) (u_height u) * 0.8)
        (min (u_width u) (u_height u) * 0.8 * (1 / 2)) 5"
  proof -
    have "3 / 2 \<le> u_shape u" and "u_shape u < 5 / 2"
      using assms(1) by simp_all
    from star_sdf [OF this] show ?thesis
      unfolding five assms(3) .
  qed
  show ?thesis
  proof (intro conjI impI)
    assume "a = of_int k * (2 * PI / 5)"
    with assms(4) have "atan (snd pos) (fst pos) = Some (of_int k * (2 * PI / 5))"
      by simp
    then have "sdStar pos (min (u_width u) (u_height u) * 0.8)
        (min (u_width u) (u_height u) * 0.8 * (1 / 2)) 5
        = Some (length2 pos - min (u_width u) (u_height u) * 0.8)"
      by (rule sdStar_tip)
    then show "getShapeSDF u pos = Some (length2 pos - 0.8 * min (u_width u) (u_height u))"
      unfolding star by simp
  next
    assume "a = (of_int k + 1 / 2) * (2 * PI / 5)"
    with assms(4) have "atan (snd pos) (fst pos) = Some ((of_int k + 1 / 2) * (2 * PI / 5))"
      by simp
    then have "sdStar pos (min (u_width u) (u_height u) * 0.8)
        (min (u_width u) (u_height u) * 0.8 * (1 / 2)) 5
        = Some (length2 pos - min (u_width u) (u_height u) * 0.8 * (1 / 2))"
      by (rule sdStar_mid)
    then show "getShapeSDF u pos =
        Some (length2 pos - 0.8 * min (u_width u) (u_height u) * 0.5)"
      unfolding star by simp
  qed
qed

theorem star_tips_and_midpoints_witness:
  "u_shape five_star = 2 \<and> u_starPoints five_star = 5 \<and> u_starInnerRadius five_star = 1 / 2
   \<and> atan (snd (1 :: real, 0 :: real)) (fst (1 :: real, 0 :: real)) = Some (of_int 0 * (2 * PI / 5))
   \<and> getShapeSDF five_star (1, 0) = Some (1 - 48)
   \<and> atan (snd (cos (PI / 5), sin (PI / 5))) (fst (cos (PI / 5), sin (PI / 5)))
       = Some ((of_int 0 + 1 / 2) * (2 * PI / 5))
   \<and> getShapeSDF five_star (cos (PI / 5), sin (PI / 5)) = Some (1 - 24)"
proof -
  have h: "u_shape five_star = 2" "u_starPoints five_star = 5"
    "u_starInnerRadius five_star = 1 / 2"
    by (simp_all add: five_star_def)
  have wh: "u_width five_star = 100" "u_height five_star = 60"
    by (simp_all add: five_star_def)
  have t: "atan (snd (1 :: real, 0 :: real)) (fst (1 :: real, 0 :: real)) = Some 0"
    by (simp add: atan_east)
  have m: "atan (snd (cos (PI / 5), sin (PI / 5))) (fst (cos (PI / 5), sin (PI / 5)))
      = Some (PI / 5)"
    by (simp add: atan_mid)
  have tip: "getShapeSDF five_star (1, 0) = Some (1 - 48)"
    using star_tips_and_midpoints [OF h t, of 0] by (simp add: wh length2_def)
  have mid: "getShapeSDF five_star (cos (PI / 5), sin (PI / 5)) = Some (1 - 24)"
    using star_tips_and_midpoints [OF h m, of 0] by (simp add: wh length2_unit)
  show ?thesis
    using h t m tip mid by simp
qed

section \<open>Properties of the export\<close>















text \<open>
  The name, the background URL and the overlay text go into the generated text as they
  are, so the text as a whole does not tell the parameter sets apart either: two designs
  with different icon sizes and overlay texts can give the same text.
\<close>

lemma template_not_injective:
  assumes "params a = Some p" and "params b = Some (p\<lparr>iconSize := j, text' := t\<rparr>)"
    and "name b = name a"
    and "backgroundUrl a = Some url"
    and "backgroundUrl b = Some (url @ ascii render_and_overlay @ numberToString (iconSize p) @ ascii overlay_style)"
    and "text' p = ascii render_and_overlay @ numberToString j @ ascii overlay_style @ t"
  shows "generateComponentCode numberToString a = generateComponentCode numberToString b"
  using assms
  by (simp add: generateComponentCode_def text_before_params_def text_after_params_def
      interpolate_def params_literal_def shapeValue_def)











section \<open>Properties of the manager\<close>

lemma load_effect_parsed:
  "localStorage s = Some (Doc designs) \<Longrightarrow> savedDesigns (load_effect s) = designs"
  by (simp add: load_effect_def)

lemma load_effect_garbled:
  "localStorage s = Some Garbled \<Longrightarrow> savedDesigns (load_effect s) = savedDesigns s"
  by (simp add: load_effect_def)

text \<open>
  C4, the claim as stated fails. The store of \<open>studio\<close> holds a partial object and a
  complete one. Loading puts both into the list: the partial one is not skipped. And when
  the stored text does not parse, none of its records is loaded.
\<close>

theorem partial_record_is_loaded:
  "savedDesigns (load_effect studio) = [partial_design, frost]
   \<and> \<not> well_formed partial_design
   \<and> filter well_formed [partial_design, frost] = [frost]
   \<and> savedDesigns (load_effect (studio\<lparr>localStorage := Some Garbled\<rparr>)) = []"
proof -
  have a: "savedDesigns (load_effect studio) = [partial_design, frost]"
    by (rule load_effect_parsed) (simp add: studio_def)
  have b: "\<not> well_formed partial_design" "well_formed frost"
    by (simp_all add: well_formed_def partial_design_def frost_def)
  have c: "savedDesigns (load_effect (studio\<lparr>localStorage := Some Garbled\<rparr>)) = []"
    by (simp add: load_effect_garbled studio_def)
  show ?thesis
    using a b c by simp
qed

text \<open>
  C4, amended. Loading is all or nothing and checks no record: when the stored text
  parses, the list it encodes becomes the list of saved designs as it is, every record in
  its place, partial ones too; when it does not parse, the list of saved designs stays as
  it was (and the failure is logged).
\<close>

theorem load_all_or_nothing:
  "(localStorage s = Some (Doc designs) \<longrightarrow> savedDesigns (load_effect s) = designs)
   \<and> (localStorage s = Some Garbled \<longrightarrow>
        savedDesigns (load_effect s) = savedDesigns s
        \<and> console_errors (load_effect s) = console_errors s + 1)"
  by (simp add: load_effect_def)

theorem load_all_or_nothing_witness:
  "localStorage studio = Some (Doc [partial_design, frost])
   \<and> savedDesigns (load_effect studio) = [partial_design, frost]
   \<and> localStorage (studio\<lparr>localStorage := Some Garbled\<rparr>) = Some Garbled
   \<and> savedDesigns (load_effect (studio\<lparr>localStorage := Some Garbled\<rparr>)) = []
   \<and> console_errors (load_effect (studio\<lparr>localStorage := Some Garbled\<rparr>)) = 1"
proof -
  have a: "localStorage studio = Some (Doc [partial_design, frost])"
    by (simp add: studio_def)
  have b: "localStorage (studio\<lparr>localStorage := Some Garbled\<rparr>) = Some Garbled"
    by simp
  have c: "savedDesigns (studio\<lparr>localStorage := Some Garbled\<rparr>) = []"
    "console_errors (studio\<lparr>localStorage := Some Garbled\<rparr>) = 0"
    by (simp_all add: studio_def)
  show ?thesis
    using a b c
      load_all_or_nothing [of studio "[partial_design, frost]"]
      load_all_or_nothing [of "studio\<lparr>localStorage := Some Garbled\<rparr>" "[]"]
    by simp
qed

text \<open>
  C10. Saving under a name that is not blank puts exactly one new record at the head of
  the list and leaves the records that were there as they were, in their order; deleting
  by id leaves exactly the records whose id is not the given one, as they were and in
  their order.
\<close>

theorem save_and_delete_frame:
  "(trim (designName s) \<noteq> [] \<longrightarrow>
      savedDesigns (handleSaveDesign now1 now2 now3 s) =
        \<lparr>id' = Some (toString now1), name = Some (trim (designName s)),
         params = Some (currentParams s), backgroundUrl = Some (currentBackgroundUrl s),
         createdAt = Some now2, updatedAt = Some now3\<rparr> # savedDesigns s)
   \<and> savedDesigns (handleDeleteDesign i s) = filter (\<lambda>d. id' d \<noteq> Some i) (savedDesigns s)"
  by (simp add: handleSaveDesign_def handleDeleteDesign_def Let_def)

text \<open>
  A name of white space only, here a no-break space, a space and an ideographic space, is
  refused: the list stays as it was.
\<close>

lemma blank_name_rejected:
  "savedDesigns (handleSaveDesign now1 now2 now3 (s\<lparr>designName := [0xA0, 0x20, 0x3000]\<rparr>))
     = savedDesigns s"
  by (simp add: handleSaveDesign_def trim_def isWhiteSpace_def)

lemma trim_workshop: "trim (designName workshop) = ascii ''Frost 2''"
  by (simp add: workshop_def trim_def isWhiteSpace_def ascii_def)

theorem save_and_delete_frame_witness:
  "trim (designName workshop) \<noteq> []
   \<and> savedDesigns (handleSaveDesign 1730000001000 1730000001000 1730000001001 workshop) =
       [\<lparr>id' = Some (ascii ''1730000001000''), name = Some (ascii ''Frost 2''),
         params = Some frost_params, backgroundUrl = Some (ascii ''bg.jpg''),
         createdAt = Some 1730000001000, updatedAt = Some 1730000001001\<rparr>,
        mist, frost]
   \<and> savedDesigns (handleDeleteDesign (ascii ''1730000000500'') workshop) = [frost]"
proof -
  have h: "trim (designName workshop) \<noteq> []"
    by (simp add: trim_workshop ascii_def)
  have l: "savedDesigns workshop = [mist, frost]"
    by (simp add: workshop_def)
  have c: "currentParams workshop = frost_params"
    "currentBackgroundUrl workshop = ascii ''bg.jpg''"
    by (simp_all add: workshop_def)
  have t: "toString 1730000001000 = ascii ''1730000001000''"
    by (simp add: ascii_def)
  have f: "filter (\<lambda>d. id' d \<noteq> Some (ascii ''1730000000500'')) [mist, frost] = [frost]"
    by (simp add: mist_def frost_def ascii_def)
  show ?thesis
    using h
      save_and_delete_frame [of workshop 1730000001000 1730000001000 1730000001001
        "ascii ''1730000000500''"]
    by (simp only: l c t f trim_workshop) simp
qed

end
